theory Spec2Isabelle
  imports Main "HOL-Library.Multiset"
begin

section \<open>Python values and library functions\<close>

text \<open>
  The values \<^verbatim>\<open>json.loads\<close> produces. A JSON object is a Python dict, kept as an
  association list that is read with \<open>map_of\<close>. Numbers are the integers; float
  literals are not modelled.
\<close>

datatype json =
    JNull
  | JBool bool
  | JNum int
  | JStr string
  | JArr "json list"
  | JObj "(string \<times> json) list"

text \<open>Python truth value of a parsed JSON value, as tested by \<^verbatim>\<open>if not x\<close>.\<close>

fun truthy :: "json \<Rightarrow> bool" where
  "truthy JNull = False"
| "truthy (JBool b) = b"
| "truthy (JNum n) = (n \<noteq> 0)"
| "truthy (JStr s) = (s \<noteq> [])"
| "truthy (JArr xs) = (xs \<noteq> [])"
| "truthy (JObj kv) = (kv \<noteq> [])"

text \<open>\<^verbatim>\<open>d.get(key)\<close> yields \<^verbatim>\<open>None\<close>, here \<open>JNull\<close>, for an absent key.\<close>

definition dict_get :: "(string \<times> json) list \<Rightarrow> string \<Rightarrow> json" where
  "dict_get kv k = (case map_of kv k of None \<Rightarrow> JNull | Some v \<Rightarrow> v)"

definition dict_get_default :: "(string \<times> json) list \<Rightarrow> string \<Rightarrow> json \<Rightarrow> json" where
  "dict_get_default kv k d = (case map_of kv k of None \<Rightarrow> d | Some v \<Rightarrow> v)"

text \<open>
  The Python built-ins the code calls and whose text is not part of the repository are
  parameters of the model: \<open>json_loads\<close> is \<^verbatim>\<open>json.loads\<close> (\<open>None\<close> when it raises
  \<^verbatim>\<open>JSONDecodeError\<close>), \<open>py_int\<close> is \<^verbatim>\<open>int\<close> on a string (\<open>None\<close> when it raises
  \<^verbatim>\<open>ValueError\<close>), \<open>py_str\<close> is \<^verbatim>\<open>str\<close> on a value that is not a string.
\<close>

record python =
  json_loads :: "string \<Rightarrow> json option"
  py_int :: "string \<Rightarrow> int option"
  py_str :: "json \<Rightarrow> string"

text \<open>
  The test \<^verbatim>\<open>if not s\<close> on a value that is \<^verbatim>\<open>None\<close> or a string: \<open>nonempty s\<close> is
  \<open>None\<close> when the test succeeds (\<^verbatim>\<open>None\<close> or the empty string), and the string
  otherwise.
\<close>

definition nonempty :: "string option \<Rightarrow> string option" where
  "nonempty s = (case s of None \<Rightarrow> None | Some t \<Rightarrow> if t = [] then None else Some t)"

text \<open>The exceptions that the code raises, catches or lets through.\<close>

datatype exn =
    DoesNotExist
  | DatabaseError
  | ValueError
  | AttributeError
  | TypeError
  | ValidationError string

section \<open>The data model (models.py)\<close>

text \<open>
  A user instance, with the attributes the chat code reads. Two instances are the same
  user when their primary keys agree, so rooms and messages refer to users by \<open>pk\<close>.
\<close>

record user =
  pk :: int
  email :: string
  first_name :: string
  last_name :: string

record chat_room =
  name :: string
  participants :: "int set"
  booking :: "int option"
  created_at :: int

text \<open>
  A row of \<^verbatim>\<open>Message\<close>: \<open>room\<close> and \<open>sender\<close> hold the keys of the rows they refer
  to; \<open>sender\<close> is nullable.
\<close>

record message =
  message_id :: int
  room :: int
  sender :: "int option"
  content :: string
  timestamp :: int
  is_read :: bool

text \<open>
  The store. \<open>available\<close> is whether the database answers: a query on a store that
  does not answer raises a database error, which is none of the model's
  \<^verbatim>\<open>DoesNotExist\<close>. Tables keyed by primary key are maps; the message table keeps
  its rows in insertion order.
\<close>

record database =
  available :: bool
  users :: "int \<rightharpoonup> user"
  rooms :: "int \<rightharpoonup> chat_room"
  messages :: "message list"
  next_room_id :: int
  next_message_id :: int

subsection \<open>The queries the code issues\<close>

text \<open>\<^verbatim>\<open>ChatRoom.objects.prefetch_related('participants').get(pk=k)\<close>\<close>

definition ChatRoom_get :: "database \<Rightarrow> int \<Rightarrow> exn + chat_room" where
  "ChatRoom_get db k =
     (if \<not> available db then Inl DatabaseError
      else case rooms db k of None \<Rightarrow> Inl DoesNotExist | Some r \<Rightarrow> Inr r)"

text \<open>
  \<^verbatim>\<open>Message.objects.filter(...).exclude(...).update(is_read=True)\<close>, the rows being
  those that satisfy \<open>P\<close>: one statement that sets the flag on every such row and
  returns how many rows it matched.
\<close>

definition set_read :: "(message \<Rightarrow> bool) \<Rightarrow> message \<Rightarrow> message" where
  "set_read P m = (if P m then m\<lparr>is_read := True\<rparr> else m)"

definition Message_update_is_read ::
  "(message \<Rightarrow> bool) \<Rightarrow> database \<Rightarrow> exn + nat \<times> database" where
  "Message_update_is_read P db =
     (if \<not> available db then Inl DatabaseError
      else Inr (length (filter P (messages db)),
                db\<lparr>messages := map (set_read P) (messages db)\<rparr>))"

text \<open>
  \<^verbatim>\<open>filter(room_id=R, is_read=False).exclude(sender=user)\<close>. Excluding on a nullable
  column keeps the rows where the column is null: \<^verbatim>\<open>exclude\<close> is the complement of
  \<^verbatim>\<open>filter\<close>.
\<close>

definition unread_from_others :: "int \<Rightarrow> int \<Rightarrow> message \<Rightarrow> bool" where
  "unread_from_others R u m = (room m = R \<and> \<not> is_read m \<and> sender m \<noteq> Some u)"

text \<open>
  \<^verbatim>\<open>filter(room_id=R, sender__isnull=False, is_read=False).exclude(sender=user)\<close>
\<close>

definition unread_from_other_senders :: "int \<Rightarrow> int \<Rightarrow> message \<Rightarrow> bool" where
  "unread_from_other_senders R u m =
     (room m = R \<and> sender m \<noteq> None \<and> \<not> is_read m \<and> sender m \<noteq> Some u)"

section \<open>The HTTP views (views.py)\<close>

record request =
  req_user :: user
  query_params :: "string \<rightharpoonup> string"

datatype body =
    ErrorBody string
  | MarkedBody bool nat
  | MessageList "message list"

datatype response = Response body nat

text \<open>
  \<^verbatim>\<open>MessageViewSet.mark_read\<close>. The view runs for an authenticated caller
  (\<^verbatim>\<open>permission_classes\<close>), who is \<open>req_user\<close>.
\<close>

definition mark_read :: "python \<Rightarrow> database \<Rightarrow> request \<Rightarrow> exn + response \<times> database" where
  "mark_read py db request =
     (let user = req_user request;
          room_id = query_params request ''room''
      in case nonempty room_id of
           None \<Rightarrow> Inr (Response (ErrorBody ''Room ID is required'') 400, db)
         | Some s \<Rightarrow>
            (case py_int py s of
               None \<Rightarrow> Inr (Response (ErrorBody ''Invalid room ID format'') 400, db)
             | Some rid \<Rightarrow>
                (case ChatRoom_get db rid of
                   Inl DoesNotExist \<Rightarrow>
                     Inr (Response (ErrorBody ''Chat room not found'') 404, db)
                 | Inl e \<Rightarrow> Inl e
                 | Inr r \<Rightarrow>
                    if pk user \<notin> participants r
                    then Inr (Response
                           (ErrorBody ''You are not a participant in this chat room'') 403, db)
                    else (case Message_update_is_read (unread_from_others rid (pk user)) db of
                            Inl e \<Rightarrow> Inl e
                          | Inr (n, db') \<Rightarrow> Inr (Response (MarkedBody True n) 200, db')))))"

text \<open>
  A queryset is lazy: building it runs no query. The two querysets of
  \<^verbatim>\<open>MessageViewSet.get_queryset\<close> are \<^verbatim>\<open>Message.objects.none()\<close> and
  \<^verbatim>\<open>Message.objects.filter(room_id=R).select_related('sender').order_by('timestamp')\<close>.
  \<open>eval_queryset\<close> is the query that runs when the queryset is iterated, on the store
  as it is at that moment. Rows of equal timestamp come in the store's order.
\<close>

datatype queryset = Message_none | Message_of_room int

definition eval_queryset :: "database \<Rightarrow> queryset \<Rightarrow> exn + message list" where
  "eval_queryset db qs =
     (case qs of
        Message_none \<Rightarrow> Inr []
      | Message_of_room R \<Rightarrow>
          if \<not> available db then Inl DatabaseError
          else Inr (sort_key timestamp (filter (\<lambda>m. room m = R) (messages db))))"

text \<open>\<^verbatim>\<open>MessageViewSet.get_queryset\<close>: the queryset returned, and the store after the update.\<close>

definition get_queryset :: "python \<Rightarrow> database \<Rightarrow> request \<Rightarrow> exn + queryset \<times> database" where
  "get_queryset py db request =
     (let user = req_user request;
          room_id = query_params request ''room''
      in case nonempty room_id of
           None \<Rightarrow> Inr (Message_none, db)
         | Some s \<Rightarrow>
            (case py_int py s of
               None \<Rightarrow> Inr (Message_none, db)
             | Some rid \<Rightarrow>
                (case ChatRoom_get db rid of
                   Inl DoesNotExist \<Rightarrow> Inr (Message_none, db)
                 | Inl e \<Rightarrow> Inl e
                 | Inr r \<Rightarrow>
                    if pk user \<notin> participants r then Inr (Message_none, db)
                    else (let msgs = Message_of_room rid
                          in case Message_update_is_read
                                    (unread_from_other_senders rid (pk user)) db of
                               Inl e \<Rightarrow> Inl e
                             | Inr (n, db') \<Rightarrow> Inr (msgs, db')))))"

text \<open>
  \<^verbatim>\<open>MessageViewSet.list\<close>: the serializer iterates the queryset, which is when its
  query runs; the response carries every field of each row, \<open>is_read\<close> among them.
\<close>

definition list_messages :: "python \<Rightarrow> database \<Rightarrow> request \<Rightarrow> exn + response \<times> database" where
  "list_messages py db request =
     (case get_queryset py db request of
        Inl e \<Rightarrow> Inl e
      | Inr (queryset, db') \<Rightarrow>
          (case eval_queryset db' queryset of
             Inl e \<Rightarrow> Inl e
           | Inr ms \<Rightarrow> Inr (Response (MessageList ms) 200, db')))"

section \<open>The live channel (consumers.py)\<close>

text \<open>
  What the handshake's scope holds: \<^verbatim>\<open>scope.get('user')\<close> is absent, the anonymous
  user (whose \<^verbatim>\<open>is_authenticated\<close> is false) or a user; \<open>url_room_id\<close> is
  \<^verbatim>\<open>scope['url_route']['kwargs'].get('room_id')\<close>, a string.
\<close>

datatype scope_user = AnonymousUser | User user

record scope =
  scope_user :: "scope_user option"
  url_room_id :: "string option"

datatype phase = Connecting | Active | Closed

text \<open>
  The consumer instance: the attributes \<^verbatim>\<open>connect\<close> sets (\<open>None\<close> while unset), its
  channel name, and whether the connection has been accepted or closed.
\<close>

record consumer =
  channel_name :: string
  user :: "scope_user option"
  room_id :: "string option"
  room_group_name :: "string option"
  phase :: phase

text \<open>The message view that \<^verbatim>\<open>receive\<close> broadcasts.\<close>

record message_data =
  data_id :: int
  data_sender :: user
  data_content :: json
  data_timestamp :: int
  data_room :: int

datatype frame =
    ErrorFrame string
  | ReadStatus string string
  | MessageFrame message_data

text \<open>
  Calls on the transport and on the channel layer, in the order made: \<^verbatim>\<open>self.send\<close>
  and \<^verbatim>\<open>channel_layer.group_send\<close>.
\<close>

datatype effect = Send frame | GroupSend string message_data

record world =
  store :: database
  groups :: "string \<Rightarrow> string set"
  outbox :: "effect list"

definition send :: "world \<Rightarrow> frame \<Rightarrow> world" where
  "send w f = w\<lparr>outbox := outbox w @ [Send f]\<rparr>"

definition group_send :: "world \<Rightarrow> string \<Rightarrow> message_data \<Rightarrow> world" where
  "group_send w g m = w\<lparr>outbox := outbox w @ [GroupSend g m]\<rparr>"

definition group_add :: "world \<Rightarrow> string \<Rightarrow> string \<Rightarrow> world" where
  "group_add w g c = w\<lparr>groups := (groups w)(g := insert c (groups w g))\<rparr>"

definition group_discard :: "world \<Rightarrow> string \<Rightarrow> string \<Rightarrow> world" where
  "group_discard w g c = w\<lparr>groups := (groups w)(g := groups w g - {c})\<rparr>"

definition close :: "consumer \<Rightarrow> consumer" where
  "close self = self\<lparr>phase := Closed\<rparr>"

definition accept :: "consumer \<Rightarrow> consumer" where
  "accept self = self\<lparr>phase := Active\<rparr>"

text \<open>
  The consumer passes its room id, a string of the URL, as a key; the query converts it
  with \<^verbatim>\<open>int\<close>, before it reaches the store.
\<close>

definition to_pk :: "python \<Rightarrow> string \<Rightarrow> exn + int" where
  "to_pk py s = (case py_int py s of None \<Rightarrow> Inl ValueError | Some k \<Rightarrow> Inr k)"

text \<open>\<^verbatim>\<open>ChatConsumer.is_user_participant\<close>: only \<^verbatim>\<open>ChatRoom.DoesNotExist\<close> is caught.\<close>

definition is_user_participant :: "python \<Rightarrow> database \<Rightarrow> string \<Rightarrow> user \<Rightarrow> exn + bool" where
  "is_user_participant py db rid usr =
     (case to_pk py rid of
        Inl e \<Rightarrow> Inl e
      | Inr k \<Rightarrow>
         (case ChatRoom_get db k of
            Inl DoesNotExist \<Rightarrow> Inr False
          | Inl e \<Rightarrow> Inl e
          | Inr r \<Rightarrow> Inr (pk usr \<in> participants r)))"

text \<open>
  \<^verbatim>\<open>Message.objects.create(room=room, sender=sender, content=content)\<close>: a new unread
  row with the next key and the clock's time. A text column stores a string as it is and
  any other value as its \<^verbatim>\<open>str\<close>.
\<close>

definition content_text :: "python \<Rightarrow> json \<Rightarrow> string" where
  "content_text py j = (case j of JStr s \<Rightarrow> s | _ \<Rightarrow> py_str py j)"

definition Message_create ::
  "database \<Rightarrow> int \<Rightarrow> int \<Rightarrow> int option \<Rightarrow> string \<Rightarrow> exn + message \<times> database" where
  "Message_create db now k s c =
     (if \<not> available db then Inl DatabaseError
      else let m = \<lparr>message_id = next_message_id db, room = k, sender = s, content = c,
                     timestamp = now, is_read = False\<rparr>
           in Inr (m, db\<lparr>messages := messages db @ [m],
                         next_message_id := next_message_id db + 1\<rparr>))"

text \<open>
  \<^verbatim>\<open>ChatConsumer.save_message\<close>: \<^verbatim>\<open>None\<close> on \<^verbatim>\<open>ChatRoom.DoesNotExist\<close> and on any
  other exception.
\<close>

definition save_message ::
  "python \<Rightarrow> int \<Rightarrow> database \<Rightarrow> string \<Rightarrow> user \<Rightarrow> json \<Rightarrow> message option \<times> database" where
  "save_message py now db rid usr cont =
     (case to_pk py rid of
        Inl e \<Rightarrow> (None, db)
      | Inr k \<Rightarrow>
         (case ChatRoom_get db k of
            Inl DoesNotExist \<Rightarrow> (None, db)
          | Inl e \<Rightarrow> (None, db)
          | Inr r \<Rightarrow>
             (case Message_create db now k (Some (pk usr)) (content_text py cont) of
                Inl e \<Rightarrow> (None, db)
              | Inr (m, db') \<Rightarrow> (Some m, db'))))"

text \<open>
  \<^verbatim>\<open>ChatConsumer.mark_messages_as_read\<close>: the count is bound and logged; the method
  returns whether the update ran.
\<close>

definition mark_messages_as_read ::
  "python \<Rightarrow> database \<Rightarrow> string \<Rightarrow> user \<Rightarrow> bool \<times> database" where
  "mark_messages_as_read py db rid usr =
     (case to_pk py rid of
        Inl e \<Rightarrow> (False, db)
      | Inr k \<Rightarrow>
         (case Message_update_is_read (unread_from_others k (pk usr)) db of
            Inl e \<Rightarrow> (False, db)
          | Inr (n, db') \<Rightarrow> (True, db')))"

text \<open>
  \<^verbatim>\<open>ChatConsumer.connect\<close>. A result is the exception that escapes, if one does, the
  consumer and the world.
\<close>

definition connect ::
  "python \<Rightarrow> scope \<Rightarrow> consumer \<Rightarrow> world \<Rightarrow> exn option \<times> consumer \<times> world" where
  "connect py sc self w =
     (let self = self\<lparr>user := scope_user sc\<rparr>
      in case user self of
           None \<Rightarrow> (None, close self, w)
         | Some AnonymousUser \<Rightarrow> (None, close self, w)
         | Some (User u) \<Rightarrow>
            (let self = self\<lparr>room_id := url_room_id sc\<rparr>
             in case nonempty (room_id self) of
                  None \<Rightarrow> (None, close self, w)
                | Some rid \<Rightarrow>
                   (case is_user_participant py (store w) rid u of
                      Inl e \<Rightarrow> (Some e, self, w)
                    | Inr is_participant \<Rightarrow>
                       if \<not> is_participant then (None, close self, w)
                       else (let self = self\<lparr>room_group_name := Some (''chat_'' @ rid)\<rparr>;
                                 w = group_add w (''chat_'' @ rid) (channel_name self)
                             in (None, accept self, w)))))"

text \<open>\<^verbatim>\<open>ChatConsumer.disconnect\<close>, the handler of a closed transport.\<close>

definition disconnect :: "consumer \<Rightarrow> world \<Rightarrow> exn option \<times> consumer \<times> world" where
  "disconnect self w =
     (case room_group_name self of
        Some g \<Rightarrow> (None, close self, group_discard w g (channel_name self))
      | None \<Rightarrow> (None, close self, w))"

text \<open>
  The attributes of an accepted connection. \<^verbatim>\<open>receive\<close> runs on accepted connections
  only, where \<^verbatim>\<open>connect\<close> has set all three; on any other consumer the model stops
  with the \<^verbatim>\<open>AttributeError\<close> of the attribute that is not there.
\<close>

definition session :: "consumer \<Rightarrow> (user \<times> string \<times> string) option" where
  "session self =
     (case (user self, room_id self, room_group_name self) of
        (Some (User u), Some rid, Some g) \<Rightarrow> Some (u, rid, g)
      | _ \<Rightarrow> None)"

text \<open>\<^verbatim>\<open>ChatConsumer.mark_messages_read\<close>\<close>

definition mark_messages_read ::
  "python \<Rightarrow> consumer \<Rightarrow> world \<Rightarrow> exn option \<times> consumer \<times> world" where
  "mark_messages_read py self w =
     (case session self of
        None \<Rightarrow> (Some AttributeError, self, w)
      | Some (u, rid, g) \<Rightarrow>
         (case mark_messages_as_read py (store w) rid u of
            (success, db') \<Rightarrow>
              if success
              then (None, self,
                    send (w\<lparr>store := db'\<rparr>)
                      (ReadStatus ''success'' ''Messages marked as read''))
              else (None, self,
                    send (w\<lparr>store := db'\<rparr>)
                      (ReadStatus ''error'' ''Failed to mark messages as read''))))"

text \<open>
  \<^verbatim>\<open>ChatConsumer.receive\<close>, with the clock's time \<open>now\<close>. A parsed value that is not a
  dict has no \<^verbatim>\<open>get\<close>: the \<^verbatim>\<open>AttributeError\<close> is not caught.
\<close>

definition receive ::
  "python \<Rightarrow> int \<Rightarrow> string option \<Rightarrow> consumer \<Rightarrow> world \<Rightarrow> exn option \<times> consumer \<times> world" where
  "receive py now text_data self w =
     (case nonempty text_data of
        None \<Rightarrow> (None, self, w)
      | Some txt \<Rightarrow>
         (case json_loads py txt of
            None \<Rightarrow> (None, self, send w (ErrorFrame ''Invalid JSON format.''))
          | Some (JObj kv) \<Rightarrow>
             (let message_type = dict_get_default kv ''type'' (JStr ''message'')
              in if message_type = JStr ''mark_read'' then mark_messages_read py self w
                 else
                  (let message_content = dict_get kv ''message''
                   in if \<not> truthy message_content
                      then (None, self,
                            send w (ErrorFrame ''Message content cannot be empty.''))
                      else
                       (case session self of
                          None \<Rightarrow> (Some AttributeError, self, w)
                        | Some (u, rid, g) \<Rightarrow>
                           (case save_message py now (store w) rid u message_content of
                              (None, db') \<Rightarrow>
                                (None, self,
                                 send (w\<lparr>store := db'\<rparr>)
                                   (ErrorFrame ''Failed to save message.''))
                            | (Some m, db') \<Rightarrow>
                                (None, self,
                                 group_send (w\<lparr>store := db'\<rparr>) g
                                   \<lparr>data_id = message_id m, data_sender = u,
                                    data_content = message_content,
                                    data_timestamp = timestamp m,
                                    data_room = room m\<rparr>)))))
          | Some _ \<Rightarrow> (Some AttributeError, self, w)))"

text \<open>\<^verbatim>\<open>ChatConsumer.chat_message\<close>, the handler of a group event.\<close>

definition chat_message :: "consumer \<Rightarrow> world \<Rightarrow> message_data \<Rightarrow> exn option \<times> consumer \<times> world" where
  "chat_message self w ev = (None, self, send w (MessageFrame ev))"

section \<open>Room creation (serializers.py)\<close>

text \<open>
  The validated data \<^verbatim>\<open>ChatRoomSerializer.create\<close> receives. The field
  \<^verbatim>\<open>participant_ids\<close> is declared as a list of
  \<^verbatim>\<open>PrimaryKeyRelatedField(queryset=User.objects.all())\<close>, which validates each id of the
  request to the user instance of that key: the list holds instances. It is \<open>None\<close> when
  the request has no such field.
\<close>

record validated_data =
  data_name :: string
  data_booking :: "int option"
  participant_ids :: "user list option"

text \<open>\<^verbatim>\<open>validated_data.pop('participant_ids', [])\<close>\<close>

definition requested :: "validated_data \<Rightarrow> user list" where
  "requested vd = (case participant_ids vd of None \<Rightarrow> [] | Some l \<Rightarrow> l)"

text \<open>
  An element of the Python set that \<^verbatim>\<open>create\<close> builds: a user instance, which stands
  by its key (two instances are equal when their keys are), or a primary key, which
  \<^verbatim>\<open>participants.add(requesting_user.pk)\<close> puts in. An instance and a key are never
  equal.
\<close>

datatype member = Instance int | Key int

text \<open>
  A \<^verbatim>\<open>pk__in\<close> lookup prepares every value of its list as a key, when the filter is
  built: a key is taken as it is, and a value that is no number, as a user instance is,
  raises \<^verbatim>\<open>TypeError\<close>.
\<close>

fun prep_pk :: "member \<Rightarrow> exn + int" where
  "prep_pk (Key k) = Inr k"
| "prep_pk (Instance k) = Inl TypeError"

fun prep_pks :: "member list \<Rightarrow> exn + int list" where
  "prep_pks [] = Inr []"
| "prep_pks (x # xs) =
     (case prep_pk x of
        Inl e \<Rightarrow> Inl e
      | Inr k \<Rightarrow> (case prep_pks xs of Inl e \<Rightarrow> Inl e | Inr ks \<Rightarrow> Inr (k # ks)))"

text \<open>
  \<^verbatim>\<open>ChatRoomSerializer.create\<close> for the requesting user, at the clock's time \<open>now\<close>. The
  Python set is a list without duplicates. \<^verbatim>\<open>User.objects.filter(pk__in=participants)\<close>
  has one row for each key of the set that is the key of a user. The result is the new
  room with its key, and the store with the room in it.
\<close>

definition create ::
  "int \<Rightarrow> database \<Rightarrow> user \<Rightarrow> validated_data \<Rightarrow> exn + (int \<times> chat_room) \<times> database" where
  "create now db requesting_user vd =
     (let ids = requested vd;
          ps = List.insert (Key (pk requesting_user)) (remdups (map (\<lambda>u. Instance (pk u)) ids))
      in case prep_pks ps of
           Inl e \<Rightarrow> Inl e
         | Inr keys \<Rightarrow>
            (let user_participants = filter (\<lambda>k. users db k \<noteq> None) keys
             in if \<not> available db then Inl DatabaseError
                else if length user_participants < 2
                then Inl (ValidationError ''A chat room requires at least two participants.'')
                else (let r = \<lparr>name = data_name vd, participants = set user_participants,
                                booking = data_booking vd, created_at = now\<rparr>
                      in Inr ((next_room_id db, r),
                              db\<lparr>rooms := (rooms db)(next_room_id db \<mapsto> r),
                                 next_room_id := next_room_id db + 1\<rparr>))))"

section \<open>Example data\<close>

text \<open>
  An instance of the Python parameters to run the model on: \<open>decimal\<close> reads a string of
  decimal digits, and \<open>example_loads\<close> knows the frames of the examples.
\<close>

definition digit_of :: "char \<Rightarrow> int option" where
  "digit_of c =
     (let n = (of_char c :: nat) in if 48 \<le> n \<and> n \<le> 57 then Some (int n - 48) else None)"

fun decimal_from :: "int \<Rightarrow> string \<Rightarrow> int option" where
  "decimal_from acc [] = Some acc"
| "decimal_from acc (c # cs) =
     (case digit_of c of None \<Rightarrow> None | Some d \<Rightarrow> decimal_from (10 * acc + d) cs)"

definition decimal :: "string \<Rightarrow> int option" where
  "decimal s = (if s = [] then None else decimal_from 0 s)"

definition ping_frame :: string where
  \<open>ping_frame = ''{"type": "ping", "message": "hi"}''\<close>

definition send_frame :: string where
  \<open>send_frame = ''{"message": "hi"}''\<close>

definition empty_frame :: string where
  \<open>empty_frame = ''{"message": ""}''\<close>

definition no_content_frame :: string where
  \<open>no_content_frame = ''{"type": "message"}''\<close>

definition example_loads :: "string \<Rightarrow> json option" where
  "example_loads =
     map_of
       [(ping_frame, JObj [(''type'', JStr ''ping''), (''message'', JStr ''hi'')]),
        (send_frame, JObj [(''message'', JStr ''hi'')]),
        (empty_frame, JObj [(''message'', JStr [])]),
        (no_content_frame, JObj [(''type'', JStr ''message'')])]"

definition example_python :: python where
  "example_python = \<lparr>json_loads = example_loads, py_int = decimal, py_str = (\<lambda>j. [])\<rparr>"

definition alice :: user where
  "alice = \<lparr>pk = 1, email = ''alice@example.org'', first_name = ''Alice'', last_name = ''A''\<rparr>"

definition bob :: user where
  "bob = \<lparr>pk = 2, email = ''bob@example.org'', first_name = ''Bob'', last_name = ''B''\<rparr>"

definition carol :: user where
  "carol = \<lparr>pk = 3, email = ''carol@example.org'', first_name = ''Carol'', last_name = ''C''\<rparr>"

definition room7 :: chat_room where
  "room7 = \<lparr>name = [], participants = {1, 2}, booking = None, created_at = 0\<rparr>"

definition hi_msg :: message where
  "hi_msg = \<lparr>message_id = 1, room = 7, sender = Some 1, content = ''hi'', timestamp = 10,
              is_read = False\<rparr>"

definition reply_msg :: message where
  "reply_msg = \<lparr>message_id = 2, room = 7, sender = Some 2, content = ''hello'',
                 timestamp = 20, is_read = False\<rparr>"

definition orphan_msg :: message where
  "orphan_msg = \<lparr>message_id = 3, room = 7, sender = None, content = ''bye'', timestamp = 5,
                  is_read = False\<rparr>"

definition db0 :: database where
  "db0 = \<lparr>available = True, users = [1 \<mapsto> alice, 2 \<mapsto> bob, 3 \<mapsto> carol],
           rooms = [7 \<mapsto> room7], messages = [hi_msg, reply_msg, orphan_msg],
           next_room_id = 8, next_message_id = 4\<rparr>"

definition room_request :: "user \<Rightarrow> string \<Rightarrow> request" where
  "room_request u s = \<lparr>req_user = u, query_params = [''room'' \<mapsto> s]\<rparr>"

definition db0_read_by_bob :: database where
  "db0_read_by_bob =
     db0\<lparr>messages := [hi_msg\<lparr>is_read := True\<rparr>, reply_msg, orphan_msg\<lparr>is_read := True\<rparr>]\<rparr>"

definition db_down :: database where
  "db_down = db0\<lparr>available := False\<rparr>"

definition db0_listed_by_alice :: database where
  "db0_listed_by_alice = db0\<lparr>messages := [hi_msg, reply_msg\<lparr>is_read := True\<rparr>, orphan_msg]\<rparr>"

definition no_room_request :: "user \<Rightarrow> request" where
  "no_room_request u = \<lparr>req_user = u, query_params = Map.empty\<rparr>"

definition consumer0 :: "string \<Rightarrow> consumer" where
  "consumer0 c = \<lparr>channel_name = c, user = None, room_id = None, room_group_name = None,
                  phase = Connecting\<rparr>"

definition world0 :: world where
  "world0 = \<lparr>store = db0, groups = (\<lambda>g. {}), outbox = []\<rparr>"

definition room7_scope :: "scope_user option \<Rightarrow> scope" where
  "room7_scope u = \<lparr>scope_user = u, url_room_id = Some ''7''\<rparr>"

definition alice_session :: consumer where
  "alice_session = \<lparr>channel_name = ''chan.alice'', user = Some (User alice),
                     room_id = Some ''7'', room_group_name = Some ''chat_7'', phase = Active\<rparr>"

definition ping_msg :: message where
  "ping_msg = \<lparr>message_id = 4, room = 7, sender = Some 1, content = ''hi'', timestamp = 30,
                is_read = False\<rparr>"

definition ping_data :: message_data where
  "ping_data = \<lparr>data_id = 4, data_sender = alice, data_content = JStr ''hi'',
                 data_timestamp = 30, data_room = 7\<rparr>"

definition empty_error :: effect where
  "empty_error = Send (ErrorFrame ''Message content cannot be empty.'')"

definition room_data :: "user list option \<Rightarrow> validated_data" where
  "room_data ids = \<lparr>data_name = [], data_booking = None, participant_ids = ids\<rparr>"

definition world_down :: world where
  "world_down = world0\<lparr>store := db_down\<rparr>"

definition bad_frame :: string where
  "bad_frame = ''{not json''"

section \<open>The read-state update\<close>

lemma unread_after: "\<not> unread_from_others R u (set_read (unread_from_others R u) m)"
  by (simp add: set_read_def unread_from_others_def)

lemma filter_after:
  "filter (unread_from_others R u) (map (set_read (unread_from_others R u)) ms) = []"
  by (induction ms) (simp_all add: unread_after)

lemma set_read_twice:
  "set_read (unread_from_others R u) \<circ> set_read (unread_from_others R u) =
   set_read (unread_from_others R u)"
  by (rule ext) (simp add: set_read_def unread_from_others_def)

lemma update_twice:
  "Message_update_is_read (unread_from_others R u) db = Inr (n, db') \<Longrightarrow>
   Message_update_is_read (unread_from_others R u) db' = Inr (0, db')"
  by (auto simp: Message_update_is_read_def filter_after set_read_twice split: if_splits)

lemma update_keeps_rooms:
  "Message_update_is_read P db = Inr (n, db') \<Longrightarrow>
   available db \<and> available db' \<and> rooms db' = rooms db"
  by (auto simp: Message_update_is_read_def split: if_splits)

lemma ChatRoom_get_cong:
  "available db' = available db \<Longrightarrow> rooms db' = rooms db \<Longrightarrow>
   ChatRoom_get db' k = ChatRoom_get db k"
  by (simp add: ChatRoom_get_def)

lemma set_read_changes:
  "set_read (unread_from_others R u) m = m \<longleftrightarrow> \<not> unread_from_others R u m"
  by (cases m) (auto simp: set_read_def unread_from_others_def)

lemma is_read_after_set_read:
  "room m = R \<Longrightarrow> sender m \<noteq> Some u \<Longrightarrow> is_read (set_read (unread_from_others R u) m)"
  by (simp add: set_read_def unread_from_others_def)

lemma set_read_keeps_room_sender:
  "room (set_read P m) = room m" "sender (set_read P m) = sender m"
  by (simp_all add: set_read_def)

lemma set_read_own: "sender m = Some u \<Longrightarrow> set_read (unread_from_others R u) m = m"
  by (simp add: set_read_def unread_from_others_def)

lemma count_changed:
  "length (filter (unread_from_others R u) ms) =
   card {i. i < length ms \<and> map (set_read (unread_from_others R u)) ms ! i \<noteq> ms ! i}"
proof -
  have "{i. i < length ms \<and> map (set_read (unread_from_others R u)) ms ! i \<noteq> ms ! i}
        = {i. i < length ms \<and> unread_from_others R u (ms ! i)}"
    by (auto simp: set_read_changes)
  then show ?thesis by (simp add: length_filter_conv_card)
qed

lemma example_room_id: "py_int example_python ''7'' = Some 7"
  by (simp add: example_python_def decimal_def digit_of_def)

text \<open>
  Claim C1. Marking room \<open>R\<close> read for reader \<open>usr\<close>, on a store that answers: the
  consumer's \<^verbatim>\<open>mark_messages_as_read\<close> and, for a participant, the view's
  \<^verbatim>\<open>mark_read\<close> run the same update and leave the same store \<open>db'\<close>. In \<open>db'\<close> every
  message of \<open>R\<close> whose sender is not \<open>usr\<close>, a message without sender included, is read;
  the rows sent by \<open>usr\<close> are as they were; and the count \<open>n\<close> of the update, which the
  view returns as \<^verbatim>\<open>marked_count\<close>, is the number of rows that changed.
\<close>

theorem mark_read_marks_others_read:
  assumes "available db" and "py_int py s = Some R"
  shows "\<exists>n db'.
      mark_messages_as_read py db s usr = (True, db') \<and>
      (\<forall>request r.
          req_user request = usr \<and> query_params request ''room'' = Some s \<and> s \<noteq> [] \<and>
          rooms db R = Some r \<and> pk usr \<in> participants r \<longrightarrow>
          mark_read py db request = Inr (Response (MarkedBody True n) 200, db')) \<and>
      length (messages db') = length (messages db) \<and>
      (\<forall>m\<in>set (messages db'). room m = R \<and> sender m \<noteq> Some (pk usr) \<longrightarrow> is_read m) \<and>
      (\<forall>i<length (messages db). sender (messages db ! i) = Some (pk usr) \<longrightarrow>
          messages db' ! i = messages db ! i) \<and>
      n = card {i. i < length (messages db) \<and> messages db' ! i \<noteq> messages db ! i}"
proof -
  let ?P = "unread_from_others R (pk usr)"
  let ?n = "length (filter ?P (messages db))"
  let ?db = "db\<lparr>messages := map (set_read ?P) (messages db)\<rparr>"
  have upd: "Message_update_is_read ?P db = Inr (?n, ?db)"
    using assms(1) by (simp add: Message_update_is_read_def)
  have a: "mark_messages_as_read py db s usr = (True, ?db)"
    using assms(2) upd by (simp add: mark_messages_as_read_def to_pk_def)
  have b: "\<forall>request r.
          req_user request = usr \<and> query_params request ''room'' = Some s \<and> s \<noteq> [] \<and>
          rooms db R = Some r \<and> pk usr \<in> participants r \<longrightarrow>
          mark_read py db request = Inr (Response (MarkedBody True ?n) 200, ?db)"
    using assms upd by (auto simp: mark_read_def nonempty_def ChatRoom_get_def Let_def)
  have c: "length (messages ?db) = length (messages db)" by simp
  have d: "\<forall>m\<in>set (messages ?db). room m = R \<and> sender m \<noteq> Some (pk usr) \<longrightarrow> is_read m"
    by (auto simp: set_read_keeps_room_sender is_read_after_set_read)
  have e: "\<forall>i<length (messages db). sender (messages db ! i) = Some (pk usr) \<longrightarrow>
          messages ?db ! i = messages db ! i"
    by (simp add: set_read_own)
  have f: "?n = card {i. i < length (messages db) \<and> messages ?db ! i \<noteq> messages db ! i}"
    using count_changed[of R "pk usr" "messages db"] by simp
  from a b c d e f show ?thesis by blast
qed

theorem mark_read_marks_others_read_witness:
  "\<exists>db'. mark_messages_as_read example_python db0 ''7'' bob = (True, db') \<and>
         mark_read example_python db0 (room_request bob ''7'') =
           Inr (Response (MarkedBody True 2) 200, db') \<and>
         map is_read (messages db') = [True, False, True]"
proof -
  have h1: "available db0" by (simp add: db0_def)
  from mark_read_marks_others_read[OF h1 example_room_id, of bob] show ?thesis
    by (simp add: mark_messages_as_read_def mark_read_def room_request_def to_pk_def
        example_room_id nonempty_def ChatRoom_get_def Message_update_is_read_def db0_def
        room7_def bob_def set_read_def unread_from_others_def hi_msg_def reply_msg_def
        orphan_msg_def Let_def)
qed

text \<open>
  Claim C7. When \<^verbatim>\<open>mark_read\<close> has answered with a count, the same request on the
  store it left, with no message created in between, answers with the count 0 and
  leaves that store as it is.
\<close>

theorem mark_read_twice:
  assumes "mark_read py db request = Inr (Response (MarkedBody True n) 200, db')"
  shows "mark_read py db' request = Inr (Response (MarkedBody True 0) 200, db')"
proof -
  from assms obtain s rid r where
    s: "nonempty (query_params request ''room'') = Some s" and
    rid: "py_int py s = Some rid" and
    r: "ChatRoom_get db rid = Inr r" and
    p: "pk (req_user request) \<in> participants r" and
    u: "Message_update_is_read (unread_from_others rid (pk (req_user request))) db =
          Inr (n, db')"
    by (auto simp: mark_read_def Let_def split: option.splits sum.splits exn.splits if_splits)
  from u have "ChatRoom_get db' rid = ChatRoom_get db rid"
    using update_keeps_rooms ChatRoom_get_cong by metis
  with s rid r p update_twice[OF u] show ?thesis
    by (simp add: mark_read_def Let_def)
qed

theorem mark_read_twice_witness:
  "mark_read example_python db0 (room_request bob ''7'') =
     Inr (Response (MarkedBody True 2) 200, db0_read_by_bob) \<and>
   mark_read example_python db0_read_by_bob (room_request bob ''7'') =
     Inr (Response (MarkedBody True 0) 200, db0_read_by_bob)"
proof -
  have h: "mark_read example_python db0 (room_request bob ''7'') =
     Inr (Response (MarkedBody True 2) 200, db0_read_by_bob)"
    by (simp add: mark_read_def room_request_def example_room_id nonempty_def
        ChatRoom_get_def Message_update_is_read_def db0_def db0_read_by_bob_def room7_def
        bob_def set_read_def unread_from_others_def hi_msg_def reply_msg_def orphan_msg_def
        Let_def)
  from mark_read_twice[OF h] h show ?thesis by simp
qed

section \<open>The membership guard\<close>

lemma example_room_8: "py_int example_python ''8'' = Some 8"
  by (simp add: example_python_def decimal_def digit_of_def)

lemma example_not_numeric: "py_int example_python ''abc'' = None"
  by (simp add: example_python_def decimal_def digit_of_def)

text \<open>
  Claim C2, as stated, fails: a lookup error is not always turned into false. On a store
  that does not answer, the error of the lookup is none that
  \<^verbatim>\<open>is_user_participant\<close> catches, and it reaches the caller.
\<close>

theorem guard_raises_when_store_down:
  "is_user_participant example_python db_down ''7'' alice = Inl DatabaseError"
  by (simp add: is_user_participant_def to_pk_def example_room_id ChatRoom_get_def
      db_down_def db0_def)

text \<open>
  Claim C2, amended. For a room id that reads as the key \<open>R\<close>: on a store that answers,
  the guard returns a boolean without raising, true exactly when a room \<open>R\<close> exists and
  the user is one of its participants, hence false both for a user who is not one and
  for a room that does not exist; on a store that does not answer, the database error
  is raised to the caller.
\<close>

theorem is_user_participant_iff:
  assumes "py_int py rid = Some R"
  shows "(available db \<longrightarrow>
           (\<exists>b. is_user_participant py db rid usr = Inr b \<and>
                (b \<longleftrightarrow> (\<exists>r. rooms db R = Some r \<and> pk usr \<in> participants r)))) \<and>
         (\<not> available db \<longrightarrow> is_user_participant py db rid usr = Inl DatabaseError)"
  using assms
  by (auto simp: is_user_participant_def to_pk_def ChatRoom_get_def split: option.splits)

theorem is_user_participant_iff_witness:
  "is_user_participant example_python db0 ''7'' alice = Inr True \<and>
   is_user_participant example_python db0 ''7'' carol = Inr False \<and>
   is_user_participant example_python db0 ''8'' alice = Inr False \<and>
   is_user_participant example_python db_down ''8'' alice = Inl DatabaseError"
proof -
  have a: "available db0" "\<not> available db_down" by (simp_all add: db0_def db_down_def)
  have r: "rooms db0 7 = Some room7" "rooms db0 8 = None" by (simp_all add: db0_def)
  have p: "pk alice \<in> participants room7" "pk carol \<notin> participants room7"
    by (simp_all add: alice_def carol_def room7_def)
  from is_user_participant_iff[OF example_room_id, of db0 alice]
       is_user_participant_iff[OF example_room_id, of db0 carol]
       is_user_participant_iff[OF example_room_8, of db0 alice]
       is_user_participant_iff[OF example_room_8, of db_down alice]
       a r p
  show ?thesis by auto
qed

section \<open>Listing the messages of a room\<close>

lemma list_messages_participant:
  assumes "available db" and "query_params request ''room'' = Some s" and "s \<noteq> []"
    and "py_int py s = Some R" and "rooms db R = Some r"
    and "pk (req_user request) \<in> participants r"
  shows "list_messages py db request =
     Inr (Response (MessageList (sort_key timestamp (filter (\<lambda>m. room m = R)
            (map (set_read (unread_from_other_senders R (pk (req_user request))))
               (messages db))))) 200,
          db\<lparr>messages := map (set_read (unread_from_other_senders R (pk (req_user request))))
             (messages db)\<rparr>)"
  using assms
  by (simp add: list_messages_def get_queryset_def eval_queryset_def nonempty_def
      ChatRoom_get_def Message_update_is_read_def Let_def)

lemma is_read_after_list:
  "room m = R \<Longrightarrow> sender m \<noteq> None \<Longrightarrow> sender m \<noteq> Some u \<Longrightarrow>
   is_read (set_read (unread_from_other_senders R u) m)"
  by (simp add: set_read_def unread_from_other_senders_def)

lemma set_read_senders_keeps:
  "sender m = None \<or> sender m = Some u \<Longrightarrow> set_read (unread_from_other_senders R u) m = m"
  by (auto simp: set_read_def unread_from_other_senders_def)

lemma list_alice:
  "list_messages example_python db0 (room_request alice ''7'') =
     Inr (Response (MessageList [orphan_msg, hi_msg, reply_msg\<lparr>is_read := True\<rparr>]) 200,
          db0_listed_by_alice)"
  by (simp add: list_messages_def get_queryset_def eval_queryset_def nonempty_def
      room_request_def example_room_id db0_listed_by_alice_def
      ChatRoom_get_def Message_update_is_read_def Let_def db0_def room7_def alice_def
      set_read_def unread_from_other_senders_def hi_msg_def reply_msg_def orphan_msg_def)

lemma alice_request:
  "available db0" "query_params (room_request alice ''7'') ''room'' = Some ''7''"
  "''7'' \<noteq> []" "rooms db0 7 = Some room7"
  "pk (req_user (room_request alice ''7'')) \<in> participants room7"
  by (simp_all add: db0_def room_request_def alice_def room7_def)

text \<open>
  Claim C3, as stated, fails for a message without sender: the update of
  \<^verbatim>\<open>get_queryset\<close> asks for \<^verbatim>\<open>sender__isnull=False\<close>. Alice, a participant of room 7,
  lists its messages; the listing succeeds, and the message whose sender is null is
  still unread in the store.
\<close>

theorem list_leaves_orphan_unread:
  "\<exists>ms db'. list_messages example_python db0 (room_request alice ''7'') =
       Inr (Response (MessageList ms) 200, db') \<and>
     (\<exists>m\<in>set (messages db'). room m = 7 \<and> sender m \<noteq> Some (pk alice) \<and> \<not> is_read m)"
  by (simp add: list_messages_def get_queryset_def eval_queryset_def nonempty_def
      room_request_def example_room_id
      ChatRoom_get_def Message_update_is_read_def Let_def db0_def room7_def alice_def
      set_read_def unread_from_other_senders_def hi_msg_def reply_msg_def orphan_msg_def)

text \<open>
  Claim C3, amended. On a store that answers, a listing of room \<open>R\<close> by a participant
  succeeds and leaves a store in which every message of \<open>R\<close> that has a sender other than
  the caller is read; the messages without sender and the caller's own are as they
  were.
\<close>

theorem list_marks_other_senders_read:
  assumes "available db" and "query_params request ''room'' = Some s" and "s \<noteq> []"
    and "py_int py s = Some R" and "rooms db R = Some r"
    and "pk (req_user request) \<in> participants r"
  shows "\<exists>ms db'. list_messages py db request = Inr (Response (MessageList ms) 200, db') \<and>
     length (messages db') = length (messages db) \<and>
     (\<forall>m\<in>set (messages db').
        room m = R \<and> sender m \<noteq> None \<and> sender m \<noteq> Some (pk (req_user request)) \<longrightarrow>
        is_read m) \<and>
     (\<forall>i<length (messages db).
        sender (messages db ! i) = None \<or>
        sender (messages db ! i) = Some (pk (req_user request)) \<longrightarrow>
        messages db' ! i = messages db ! i)"
proof -
  let ?u = "pk (req_user request)"
  let ?f = "set_read (unread_from_other_senders R ?u)"
  let ?db = "db\<lparr>messages := map ?f (messages db)\<rparr>"
  have d: "\<forall>m\<in>set (messages ?db).
      room m = R \<and> sender m \<noteq> None \<and> sender m \<noteq> Some ?u \<longrightarrow> is_read m"
    by (auto simp: set_read_keeps_room_sender is_read_after_list)
  have e: "\<forall>i<length (messages db).
        sender (messages db ! i) = None \<or> sender (messages db ! i) = Some ?u \<longrightarrow>
        messages ?db ! i = messages db ! i"
    by (simp add: set_read_senders_keeps)
  have c: "length (messages ?db) = length (messages db)" by simp
  from list_messages_participant[OF assms] c d e show ?thesis by blast
qed

theorem list_marks_other_senders_read_witness:
  "\<exists>ms. list_messages example_python db0 (room_request alice ''7'') =
       Inr (Response (MessageList ms) 200, db0_listed_by_alice) \<and>
     map is_read (messages db0) = [False, False, False] \<and>
     map is_read (messages db0_listed_by_alice) = [False, True, False]"
  using list_marks_other_senders_read[OF alice_request(1,2,3) example_room_id
      alice_request(4,5)]
  by (simp add: list_alice)
     (simp add: db0_listed_by_alice_def db0_def hi_msg_def reply_msg_def orphan_msg_def)

text \<open>
  Claim C10. The update runs inside \<^verbatim>\<open>get_queryset\<close>; the queryset it returns is
  evaluated afterwards, when \<^verbatim>\<open>list\<close> serializes it. So the rows of the response are
  the rows of the room in the store after the update, and every one of them that has a
  sender other than the caller has its read flag true in the response.
\<close>

theorem list_response_shows_read:
  assumes "available db" and "query_params request ''room'' = Some s" and "s \<noteq> []"
    and "py_int py s = Some R" and "rooms db R = Some r"
    and "pk (req_user request) \<in> participants r"
  shows "\<exists>ms db'. list_messages py db request = Inr (Response (MessageList ms) 200, db') \<and>
     (\<forall>m\<in>set ms. sender m \<noteq> None \<and> sender m \<noteq> Some (pk (req_user request)) \<longrightarrow> is_read m) \<and>
     mset ms = mset (filter (\<lambda>m. room m = R) (messages db'))"
proof -
  let ?u = "pk (req_user request)"
  let ?f = "set_read (unread_from_other_senders R ?u)"
  let ?db = "db\<lparr>messages := map ?f (messages db)\<rparr>"
  let ?ms = "sort_key timestamp (filter (\<lambda>m. room m = R) (map ?f (messages db)))"
  have a: "\<forall>m\<in>set ?ms. sender m \<noteq> None \<and> sender m \<noteq> Some ?u \<longrightarrow> is_read m"
  proof (intro ballI impI)
    fix m
    assume m: "m \<in> set ?ms" and s: "sender m \<noteq> None \<and> sender m \<noteq> Some ?u"
    from m obtain x where x: "m = ?f x" and R: "room m = R" by auto
    from x R s have "room x = R" "sender x \<noteq> None" "sender x \<noteq> Some ?u"
      by (simp_all add: set_read_keeps_room_sender)
    then show "is_read m" unfolding x by (rule is_read_after_list)
  qed
  have b: "mset ?ms = mset (filter (\<lambda>m. room m = R) (messages ?db))"
    by simp
  from list_messages_participant[OF assms] a b show ?thesis by blast
qed

theorem list_response_shows_read_witness:
  "list_messages example_python db0 (room_request alice ''7'') =
     Inr (Response (MessageList [orphan_msg, hi_msg, reply_msg\<lparr>is_read := True\<rparr>]) 200,
          db0_listed_by_alice) \<and>
   \<not> is_read reply_msg \<and> reply_msg \<in> set (messages db0)"
  using list_response_shows_read[OF alice_request(1,2,3) example_room_id alice_request(4,5)]
  by (simp add: list_alice) (simp add: db0_def reply_msg_def)

text \<open>
  Claim C5. A listing request answers with an empty list, status 200 and the store
  untouched, when the \<^verbatim>\<open>room\<close> parameter is missing or empty, when it is not a number,
  and, on a store that answers, when no room has that key or the caller is not a
  participant of the room. For a participant the answer holds the messages of the room,
  all of them, sorted by timestamp with the oldest first; the store it leaves has the
  rows it had, with no change but to read flags.
\<close>

theorem list_messages_result:
  "(query_params request ''room'' = None \<or> query_params request ''room'' = Some [] \<longrightarrow>
      list_messages py db request = Inr (Response (MessageList []) 200, db)) \<and>
   (\<forall>s. query_params request ''room'' = Some s \<and> s \<noteq> [] \<and> py_int py s = None \<longrightarrow>
      list_messages py db request = Inr (Response (MessageList []) 200, db)) \<and>
   (\<forall>s R. query_params request ''room'' = Some s \<and> s \<noteq> [] \<and> py_int py s = Some R \<and>
      available db \<and> rooms db R = None \<longrightarrow>
      list_messages py db request = Inr (Response (MessageList []) 200, db)) \<and>
   (\<forall>s R r. query_params request ''room'' = Some s \<and> s \<noteq> [] \<and> py_int py s = Some R \<and>
      available db \<and> rooms db R = Some r \<and> pk (req_user request) \<notin> participants r \<longrightarrow>
      list_messages py db request = Inr (Response (MessageList []) 200, db)) \<and>
   (\<forall>s R r. query_params request ''room'' = Some s \<and> s \<noteq> [] \<and> py_int py s = Some R \<and>
      available db \<and> rooms db R = Some r \<and> pk (req_user request) \<in> participants r \<longrightarrow>
      (\<exists>ms db'. list_messages py db request = Inr (Response (MessageList ms) 200, db') \<and>
         sorted (map timestamp ms) \<and>
         mset ms = mset (filter (\<lambda>m. room m = R) (messages db')) \<and>
         length (messages db') = length (messages db) \<and>
         (\<forall>i<length (messages db).
            messages db' ! i = (messages db ! i)\<lparr>is_read := is_read (messages db' ! i)\<rparr>)))"
proof (intro conjI allI impI)
  assume "query_params request ''room'' = None \<or> query_params request ''room'' = Some []"
  then show "list_messages py db request = Inr (Response (MessageList []) 200, db)"
    by (auto simp: list_messages_def get_queryset_def eval_queryset_def nonempty_def)
next
  fix s
  assume "query_params request ''room'' = Some s \<and> s \<noteq> [] \<and> py_int py s = None"
  then show "list_messages py db request = Inr (Response (MessageList []) 200, db)"
    by (simp add: list_messages_def get_queryset_def eval_queryset_def nonempty_def)
next
  fix s R
  assume "query_params request ''room'' = Some s \<and> s \<noteq> [] \<and> py_int py s = Some R \<and>
      available db \<and> rooms db R = None"
  then show "list_messages py db request = Inr (Response (MessageList []) 200, db)"
    by (simp add: list_messages_def get_queryset_def eval_queryset_def nonempty_def
        ChatRoom_get_def)
next
  fix s R r
  assume "query_params request ''room'' = Some s \<and> s \<noteq> [] \<and> py_int py s = Some R \<and>
      available db \<and> rooms db R = Some r \<and> pk (req_user request) \<notin> participants r"
  then show "list_messages py db request = Inr (Response (MessageList []) 200, db)"
    by (simp add: list_messages_def get_queryset_def eval_queryset_def nonempty_def
        ChatRoom_get_def)
next
  fix s R r
  let ?f = "set_read (unread_from_other_senders R (pk (req_user request)))"
  let ?db = "db\<lparr>messages := map ?f (messages db)\<rparr>"
  let ?ms = "sort_key timestamp (filter (\<lambda>m. room m = R) (map ?f (messages db)))"
  assume h: "query_params request ''room'' = Some s \<and> s \<noteq> [] \<and> py_int py s = Some R \<and>
      available db \<and> rooms db R = Some r \<and> pk (req_user request) \<in> participants r"
  then have l: "list_messages py db request = Inr (Response (MessageList ?ms) 200, ?db)"
    using list_messages_participant[of db request s py R r] by blast
  have a: "sorted (map timestamp ?ms)" by (rule sorted_sort_key)
  have b: "mset ?ms = mset (filter (\<lambda>m. room m = R) (messages ?db))" by simp
  have c: "length (messages ?db) = length (messages db)" by simp
  have d: "\<forall>i<length (messages db).
            messages ?db ! i = (messages db ! i)\<lparr>is_read := is_read (messages ?db ! i)\<rparr>"
    by (simp add: set_read_def)
  from l a b c d
  show "\<exists>ms db'. list_messages py db request = Inr (Response (MessageList ms) 200, db') \<and>
         sorted (map timestamp ms) \<and>
         mset ms = mset (filter (\<lambda>m. room m = R) (messages db')) \<and>
         length (messages db') = length (messages db) \<and>
         (\<forall>i<length (messages db).
            messages db' ! i = (messages db ! i)\<lparr>is_read := is_read (messages db' ! i)\<rparr>)"
    by blast
qed

theorem list_messages_result_witness:
  "list_messages example_python db0 (no_room_request alice) =
     Inr (Response (MessageList []) 200, db0) \<and>
   list_messages example_python db0 (room_request alice ''abc'') =
     Inr (Response (MessageList []) 200, db0) \<and>
   list_messages example_python db0 (room_request alice ''8'') =
     Inr (Response (MessageList []) 200, db0) \<and>
   list_messages example_python db0 (room_request carol ''7'') =
     Inr (Response (MessageList []) 200, db0) \<and>
   list_messages example_python db0 (room_request alice ''7'') =
     Inr (Response (MessageList [orphan_msg, hi_msg, reply_msg\<lparr>is_read := True\<rparr>]) 200,
          db0_listed_by_alice) \<and>
   map timestamp [orphan_msg, hi_msg, reply_msg\<lparr>is_read := True\<rparr>] = [5, 10, 20]"
proof -
  have q: "query_params (no_room_request alice) ''room'' = None"
      "query_params (room_request alice ''abc'') ''room'' = Some ''abc''"
      "query_params (room_request alice ''8'') ''room'' = Some ''8''"
      "query_params (room_request carol ''7'') ''room'' = Some ''7''"
    by (simp_all add: no_room_request_def room_request_def)
  have r: "rooms db0 8 = None"
      "pk (req_user (room_request carol ''7'')) \<notin> participants room7"
    by (simp_all add: db0_def room_request_def carol_def room7_def)
  have t: "map timestamp [orphan_msg, hi_msg, reply_msg\<lparr>is_read := True\<rparr>] = [5, 10, 20]"
    by (simp add: hi_msg_def reply_msg_def orphan_msg_def)
  from list_messages_result[of "no_room_request alice" example_python db0]
       list_messages_result[of "room_request alice ''abc''" example_python db0]
       list_messages_result[of "room_request alice ''8''" example_python db0]
       list_messages_result[of "room_request carol ''7''" example_python db0]
       list_messages_result[of "room_request alice ''7''" example_python db0]
       q r t example_not_numeric example_room_8 example_room_id alice_request list_alice
  show ?thesis by simp
qed

section \<open>The handshake\<close>

lemma connect_cases:
  "connect py sc self w =
    (case scope_user sc of
       Some (User u) \<Rightarrow>
         (case nonempty (url_room_id sc) of
            None \<Rightarrow> (None, close (self\<lparr>user := scope_user sc, room_id := url_room_id sc\<rparr>), w)
          | Some rid \<Rightarrow>
             (case is_user_participant py (store w) rid u of
                Inl e \<Rightarrow> (Some e, self\<lparr>user := scope_user sc, room_id := url_room_id sc\<rparr>, w)
              | Inr b \<Rightarrow>
                 if b then (None,
                    accept (self\<lparr>user := scope_user sc, room_id := url_room_id sc,
                       room_group_name := Some (''chat_'' @ rid)\<rparr>),
                    group_add w (''chat_'' @ rid) (channel_name self))
                 else (None, close (self\<lparr>user := scope_user sc, room_id := url_room_id sc\<rparr>), w)))
     | _ \<Rightarrow> (None, close (self\<lparr>user := scope_user sc\<rparr>), w))"
  by (simp add: connect_def Let_def split: option.splits scope_user.splits sum.splits)

text \<open>
  Claim C6, as stated, fails where the guard raises: \<^verbatim>\<open>connect\<close> catches nothing, so
  when the store does not answer the error of the lookup escapes before
  \<^verbatim>\<open>self.close()\<close> is reached. Alice, a participant of room 7, connects while the store
  is down: the exception is raised and the connection has been neither closed nor
  accepted.
\<close>

theorem connect_raises_without_closing:
  "connect example_python (room7_scope (Some (User alice))) (consumer0 ''chan.alice'')
     world_down =
     (Some DatabaseError,
      \<lparr>channel_name = ''chan.alice'', user = Some (User alice), room_id = Some ''7'',
       room_group_name = None, phase = Connecting\<rparr>,
      world_down)"
  by (simp add: connect_cases room7_scope_def consumer0_def world_down_def world0_def
      nonempty_def is_user_participant_def to_pk_def example_room_id ChatRoom_get_def
      db_down_def db0_def)

text \<open>
  Claim C6, amended. Whatever \<^verbatim>\<open>connect\<close> returns: if the world has changed, which a
  registration in a room group does, or the call has ended without an exception and
  without closing, then the user of the scope is authenticated, the room id is present
  and not empty, and the guard has answered true. If the user is absent or anonymous, or
  the room id is absent or empty, or the guard answers false, then the connection is
  closed, no group name is set and the world, the groups with it, is as it was. If the
  guard raises, the exception escapes: the connection is neither closed nor accepted,
  no group name is set and the world is as it was. When all three checks pass the
  channel is in the room's group and the connection is accepted.
\<close>

theorem connect_registers_only_approved:
  assumes "connect py sc self w = (ex, self', w')"
  shows "(w' \<noteq> w \<or> (ex = None \<and> phase self' \<noteq> Closed) \<longrightarrow>
           (\<exists>u rid. scope_user sc = Some (User u) \<and> url_room_id sc = Some rid \<and> rid \<noteq> [] \<and>
              is_user_participant py (store w) rid u = Inr True)) \<and>
         ((\<forall>u. scope_user sc \<noteq> Some (User u)) \<or> url_room_id sc = None \<or>
          url_room_id sc = Some [] \<or>
          (\<exists>u rid. scope_user sc = Some (User u) \<and> url_room_id sc = Some rid \<and>
              is_user_participant py (store w) rid u = Inr False) \<longrightarrow>
            ex = None \<and> phase self' = Closed \<and>
            room_group_name self' = room_group_name self \<and> w' = w) \<and>
         (\<forall>u rid e. scope_user sc = Some (User u) \<and> url_room_id sc = Some rid \<and> rid \<noteq> [] \<and>
              is_user_participant py (store w) rid u = Inl e \<longrightarrow>
            ex = Some e \<and> phase self' = phase self \<and>
            room_group_name self' = room_group_name self \<and> w' = w) \<and>
         (ex \<noteq> None \<longrightarrow> w' = w) \<and>
         (\<forall>u rid. scope_user sc = Some (User u) \<and> url_room_id sc = Some rid \<and> rid \<noteq> [] \<and>
              is_user_participant py (store w) rid u = Inr True \<longrightarrow>
            ex = None \<and> phase self' = Active \<and>
            room_group_name self' = Some (''chat_'' @ rid) \<and>
            w' = group_add w (''chat_'' @ rid) (channel_name self) \<and>
            channel_name self \<in> groups w' (''chat_'' @ rid))"
  using assms unfolding connect_cases
  by (auto simp: nonempty_def close_def accept_def group_add_def
      split: option.splits scope_user.splits sum.splits if_splits)

theorem connect_registers_only_approved_witness:
  "connect example_python (room7_scope (Some (User carol))) (consumer0 ''chan.carol'') world0 =
     (None,
      \<lparr>channel_name = ''chan.carol'', user = Some (User carol), room_id = Some ''7'',
       room_group_name = None, phase = Closed\<rparr>,
      world0) \<and>
   connect example_python (room7_scope (Some AnonymousUser)) (consumer0 ''chan.anon'') world0 =
     (None,
      \<lparr>channel_name = ''chan.anon'', user = Some AnonymousUser, room_id = None,
       room_group_name = None, phase = Closed\<rparr>,
      world0) \<and>
   connect example_python (room7_scope (Some (User bob))) (consumer0 ''chan.bob'') world_down =
     (Some DatabaseError,
      \<lparr>channel_name = ''chan.bob'', user = Some (User bob), room_id = Some ''7'',
       room_group_name = None, phase = Connecting\<rparr>,
      world_down) \<and>
   connect example_python (room7_scope (Some (User alice))) (consumer0 ''chan.alice'') world0 =
     (None, alice_session, group_add world0 ''chat_7'' ''chan.alice'') \<and>
   groups (group_add world0 ''chat_7'' ''chan.alice'') ''chat_7'' = {''chan.alice''}"
proof -
  have c: "connect example_python (room7_scope (Some (User carol))) (consumer0 ''chan.carol'')
      world0 =
     (None,
      \<lparr>channel_name = ''chan.carol'', user = Some (User carol), room_id = Some ''7'',
       room_group_name = None, phase = Closed\<rparr>,
      world0)"
    by (simp add: connect_cases room7_scope_def consumer0_def world0_def nonempty_def
        is_user_participant_def to_pk_def example_room_id ChatRoom_get_def db0_def room7_def
        carol_def close_def)
  have n: "connect example_python (room7_scope (Some AnonymousUser)) (consumer0 ''chan.anon'')
      world0 =
     (None,
      \<lparr>channel_name = ''chan.anon'', user = Some AnonymousUser, room_id = None,
       room_group_name = None, phase = Closed\<rparr>,
      world0)"
    by (simp add: connect_cases room7_scope_def consumer0_def close_def)
  have d: "connect example_python (room7_scope (Some (User bob))) (consumer0 ''chan.bob'')
      world_down =
     (Some DatabaseError,
      \<lparr>channel_name = ''chan.bob'', user = Some (User bob), room_id = Some ''7'',
       room_group_name = None, phase = Connecting\<rparr>,
      world_down)"
    by (simp add: connect_cases room7_scope_def consumer0_def world_down_def world0_def
        nonempty_def is_user_participant_def to_pk_def example_room_id ChatRoom_get_def
        db_down_def db0_def)
  have a: "connect example_python (room7_scope (Some (User alice))) (consumer0 ''chan.alice'')
      world0 =
     (None, alice_session, group_add world0 ''chat_7'' ''chan.alice'')"
    by (simp add: connect_cases room7_scope_def consumer0_def world0_def nonempty_def
        is_user_participant_def to_pk_def example_room_id ChatRoom_get_def db0_def room7_def
        alice_def accept_def alice_session_def)
  have g: "groups (group_add world0 ''chat_7'' ''chan.alice'') ''chat_7'' = {''chan.alice''}"
    by (simp add: group_add_def world0_def)
  from connect_registers_only_approved[OF c] connect_registers_only_approved[OF n]
       connect_registers_only_approved[OF d] connect_registers_only_approved[OF a] c n d a g
  show ?thesis by simp
qed

section \<open>Inbound frames\<close>

lemma receive_empty_content:
  assumes "nonempty text_data = Some txt" and "json_loads py txt = Some (JObj kv)"
    and "dict_get_default kv ''type'' (JStr ''message'') \<noteq> JStr ''mark_read''"
    and "\<not> truthy (dict_get kv ''message'')"
  shows "receive py now text_data self w =
     (None, self, send w (ErrorFrame ''Message content cannot be empty.''))"
  using assms by (simp add: receive_def Let_def)

lemma receive_send:
  assumes "nonempty text_data = Some txt" and "json_loads py txt = Some (JObj kv)"
    and "dict_get_default kv ''type'' (JStr ''message'') \<noteq> JStr ''mark_read''"
    and "truthy (dict_get kv ''message'')"
    and "session self = Some (u, rid, g)" and "py_int py rid = Some R"
    and "available (store w)" and "rooms (store w) R = Some r"
  shows "receive py now text_data self w =
     (None, self,
      group_send
        (w\<lparr>store := (store w)\<lparr>messages := messages (store w) @
                [\<lparr>message_id = next_message_id (store w), room = R, sender = Some (pk u),
                  content = content_text py (dict_get kv ''message''), timestamp = now,
                  is_read = False\<rparr>],
             next_message_id := next_message_id (store w) + 1\<rparr>\<rparr>)
        g
        \<lparr>data_id = next_message_id (store w), data_sender = u,
         data_content = dict_get kv ''message'', data_timestamp = now, data_room = R\<rparr>)"
  using assms
  by (simp add: receive_def Let_def save_message_def to_pk_def ChatRoom_get_def
      Message_create_def)

lemma type_not_mark_read:
  "map_of kv ''type'' \<noteq> Some (JStr ''mark_read'') \<Longrightarrow>
   dict_get_default kv ''type'' (JStr ''message'') \<noteq> JStr ''mark_read''"
  by (auto simp: dict_get_default_def split: option.splits)

lemma receive_object_not_mark_read:
  assumes "nonempty text_data = Some txt" and "json_loads py txt = Some (JObj kv)"
    and "dict_get_default kv ''type'' (JStr ''message'') \<noteq> JStr ''mark_read''"
  shows "receive py now text_data self w =
     (if \<not> truthy (dict_get kv ''message'')
      then (None, self, send w (ErrorFrame ''Message content cannot be empty.''))
      else case session self of
             None \<Rightarrow> (Some AttributeError, self, w)
           | Some (u, rid, g) \<Rightarrow>
              (case save_message py now (store w) rid u (dict_get kv ''message'') of
                 (None, db') \<Rightarrow>
                   (None, self, send (w\<lparr>store := db'\<rparr>) (ErrorFrame ''Failed to save message.''))
               | (Some m, db') \<Rightarrow>
                   (None, self,
                    group_send (w\<lparr>store := db'\<rparr>) g
                      \<lparr>data_id = message_id m, data_sender = u,
                       data_content = dict_get kv ''message'',
                       data_timestamp = timestamp m, data_room = room m\<rparr>)))"
  using assms by (simp add: receive_def Let_def)

lemma example_frames:
  "json_loads example_python ping_frame =
     Some (JObj [(''type'', JStr ''ping''), (''message'', JStr ''hi'')])"
  "json_loads example_python send_frame = Some (JObj [(''message'', JStr ''hi'')])"
  "json_loads example_python empty_frame = Some (JObj [(''message'', JStr [])])"
  "json_loads example_python no_content_frame = Some (JObj [(''type'', JStr ''message'')])"
  "ping_frame \<noteq> []" "send_frame \<noteq> []" "empty_frame \<noteq> []" "no_content_frame \<noteq> []"
  by (simp_all add: example_python_def example_loads_def ping_frame_def send_frame_def
      empty_frame_def no_content_frame_def)

lemma alice_session_attrs:
  "session alice_session = Some (alice, ''7'', ''chat_7'')"
  "available (store world0)" "rooms (store world0) 7 = Some room7"
  by (simp_all add: session_def alice_session_def world0_def db0_def)

text \<open>
  Claim C4, as stated, fails: \<^verbatim>\<open>receive\<close> tests the type for \<^verbatim>\<open>'mark_read'\<close> only,
  and every other frame goes on to the message handling. A frame of type \<^verbatim>\<open>'ping'\<close>
  that carries a message is persisted and broadcast to the room group.
\<close>

theorem unknown_type_is_persisted_and_broadcast:
  "json_loads example_python ping_frame =
     Some (JObj [(''type'', JStr ''ping''), (''message'', JStr ''hi'')]) \<and>
   receive example_python 30 (Some ping_frame) alice_session world0 =
     (None, alice_session,
      world0\<lparr>store := db0\<lparr>messages := messages db0 @ [ping_msg], next_message_id := 5\<rparr>,
             outbox := [GroupSend ''chat_7'' ping_data]\<rparr>)"
proof -
  have ne: "nonempty (Some ping_frame) = Some ping_frame"
    by (simp add: nonempty_def example_frames)
  have ty: "dict_get_default [(''type'', JStr ''ping''), (''message'', JStr ''hi'')] ''type''
      (JStr ''message'') \<noteq> JStr ''mark_read''"
    by (simp add: dict_get_default_def)
  have tr: "truthy (dict_get [(''type'', JStr ''ping''), (''message'', JStr ''hi'')] ''message'')"
    by (simp add: dict_get_def)
  show ?thesis
    using receive_send[OF ne example_frames(1) ty tr alice_session_attrs(1) example_room_id
      alice_session_attrs(2,3), of 30]
    by (simp add: example_frames group_send_def world0_def db0_def ping_msg_def ping_data_def
        dict_get_def content_text_def alice_def)
qed

text \<open>
  Claim C4, amended. A frame that parses as a JSON object whose type is anything but
  \<^verbatim>\<open>'mark_read'\<close> is handled as a send frame: with an empty or missing content the
  sender gets the validation error and nothing else happens; with a content, on an
  accepted connection whose room the store has, the message is persisted and broadcast
  to the room group. Two such frames with the same content are handled alike, whatever
  their types, the absent type included. The consumer is returned as it was: the frame
  does not close the session.
\<close>

theorem other_types_handled_as_send:
  assumes "text_data = Some txt" and "txt \<noteq> []" and "json_loads py txt = Some (JObj kv)"
    and "map_of kv ''type'' \<noteq> Some (JStr ''mark_read'')"
  shows "(\<not> truthy (dict_get kv ''message'') \<longrightarrow>
            receive py now text_data self w =
              (None, self, send w (ErrorFrame ''Message content cannot be empty.''))) \<and>
         (\<forall>u rid g R r.
            truthy (dict_get kv ''message'') \<and> session self = Some (u, rid, g) \<and>
            py_int py rid = Some R \<and> available (store w) \<and> rooms (store w) R = Some r \<longrightarrow>
            receive py now text_data self w =
              (None, self,
               group_send
                 (w\<lparr>store := (store w)\<lparr>messages := messages (store w) @
                      [\<lparr>message_id = next_message_id (store w), room = R, sender = Some (pk u),
                        content = content_text py (dict_get kv ''message''), timestamp = now,
                        is_read = False\<rparr>],
                    next_message_id := next_message_id (store w) + 1\<rparr>\<rparr>)
                 g
                 \<lparr>data_id = next_message_id (store w), data_sender = u,
                  data_content = dict_get kv ''message'', data_timestamp = now,
                  data_room = R\<rparr>)) \<and>
         (\<forall>txt' kv'.
            txt' \<noteq> [] \<and> json_loads py txt' = Some (JObj kv') \<and>
            map_of kv' ''type'' \<noteq> Some (JStr ''mark_read'') \<and>
            map_of kv' ''message'' = map_of kv ''message'' \<longrightarrow>
            receive py now (Some txt') self w = receive py now text_data self w) \<and>
         (\<exists>ex w'. receive py now text_data self w = (ex, self, w'))"
proof (intro conjI allI impI)
  have ne: "nonempty text_data = Some txt" using assms(1,2) by (simp add: nonempty_def)
  have ty: "dict_get_default kv ''type'' (JStr ''message'') \<noteq> JStr ''mark_read''"
    using assms(4) by (rule type_not_mark_read)
  note obj = receive_object_not_mark_read[OF ne assms(3) ty]
  {
    assume "\<not> truthy (dict_get kv ''message'')"
    then show "receive py now text_data self w =
              (None, self, send w (ErrorFrame ''Message content cannot be empty.''))"
      by (rule receive_empty_content[OF ne assms(3) ty])
  next
    fix u rid g R r
    assume "truthy (dict_get kv ''message'') \<and> session self = Some (u, rid, g) \<and>
            py_int py rid = Some R \<and> available (store w) \<and> rooms (store w) R = Some r"
    then show "receive py now text_data self w =
              (None, self,
               group_send
                 (w\<lparr>store := (store w)\<lparr>messages := messages (store w) @
                      [\<lparr>message_id = next_message_id (store w), room = R, sender = Some (pk u),
                        content = content_text py (dict_get kv ''message''), timestamp = now,
                        is_read = False\<rparr>],
                    next_message_id := next_message_id (store w) + 1\<rparr>\<rparr>)
                 g
                 \<lparr>data_id = next_message_id (store w), data_sender = u,
                  data_content = dict_get kv ''message'', data_timestamp = now,
                  data_room = R\<rparr>)"
      using receive_send[OF ne assms(3) ty, of self u rid g R w r now] by blast
  next
    fix txt' kv'
    assume h: "txt' \<noteq> [] \<and> json_loads py txt' = Some (JObj kv') \<and>
            map_of kv' ''type'' \<noteq> Some (JStr ''mark_read'') \<and>
            map_of kv' ''message'' = map_of kv ''message''"
    then have ne': "nonempty (Some txt') = Some txt'" by (simp add: nonempty_def)
    from h have j': "json_loads py txt' = Some (JObj kv')" by simp
    from h have ty': "dict_get_default kv' ''type'' (JStr ''message'') \<noteq> JStr ''mark_read''"
      by (simp add: type_not_mark_read)
    from h have m: "dict_get kv' ''message'' = dict_get kv ''message''"
      by (simp add: dict_get_def)
    show "receive py now (Some txt') self w = receive py now text_data self w"
      unfolding obj receive_object_not_mark_read[OF ne' j' ty'] m ..
  next
    show "\<exists>ex w'. receive py now text_data self w = (ex, self, w')"
      unfolding obj by (auto split: option.splits prod.splits)
  }
qed

theorem other_types_handled_as_send_witness:
  "receive example_python 30 (Some send_frame) alice_session world0 =
     receive example_python 30 (Some ping_frame) alice_session world0 \<and>
   receive example_python 30 (Some ping_frame) alice_session world0 =
     (None, alice_session,
      world0\<lparr>store := db0\<lparr>messages := messages db0 @ [ping_msg], next_message_id := 5\<rparr>,
             outbox := [GroupSend ''chat_7'' ping_data]\<rparr>)"
proof -
  have ty: "map_of [(''type'', JStr ''ping''), (''message'', JStr ''hi'')] ''type''
      \<noteq> Some (JStr ''mark_read'')"
    by simp
  note t = other_types_handled_as_send[OF refl example_frames(5) example_frames(1) ty,
      of 30 alice_session world0]
  have eq: "receive example_python 30 (Some send_frame) alice_session world0 =
     receive example_python 30 (Some ping_frame) alice_session world0"
    using t[THEN conjunct2, THEN conjunct2, THEN conjunct1, rule_format,
        of send_frame "[(''message'', JStr ''hi'')]"]
    by (simp add: example_frames)
  have v: "receive example_python 30 (Some ping_frame) alice_session world0 =
     (None, alice_session,
      world0\<lparr>store := db0\<lparr>messages := messages db0 @ [ping_msg], next_message_id := 5\<rparr>,
             outbox := [GroupSend ''chat_7'' ping_data]\<rparr>)"
    using t[THEN conjunct2, THEN conjunct1, rule_format, of alice "''7''" "''chat_7''" 7 room7]
    by (simp add: alice_session_attrs example_room_id group_send_def world0_def db0_def
        ping_msg_def ping_data_def dict_get_def content_text_def alice_def)
  from eq v show ?thesis by simp
qed

lemma receive_malformed:
  assumes "nonempty text_data = Some txt" and "json_loads py txt = None"
  shows "receive py now text_data self w =
     (None, self, send w (ErrorFrame ''Invalid JSON format.''))"
  using assms by (simp add: receive_def)

lemma bad_frame_malformed:
  "bad_frame \<noteq> []" "json_loads example_python bad_frame = None"
  by (simp_all add: bad_frame_def example_python_def example_loads_def ping_frame_def
      send_frame_def empty_frame_def no_content_frame_def)

text \<open>
  Claim C8. A send frame (a JSON object whose type is not \<^verbatim>\<open>'mark_read'\<close>) whose
  content is missing or the empty string: the one effect is the frame
  \<^verbatim>\<open>{'error': 'Message content cannot be empty.'}\<close> sent to the sender. A frame that
  is not JSON gets \<^verbatim>\<open>{'error': 'Invalid JSON format.'}\<close> from \<^verbatim>\<open>receive\<close>, so on the
  same consumer and world the two replies differ. The store and the groups are as they
  were, nothing is broadcast, no exception escapes and the consumer is as it was. A send
  with content that follows on the same connection is persisted and broadcast.
\<close>

theorem empty_content_gets_validation_error:
  assumes "text_data = Some txt" and "txt \<noteq> []" and "json_loads py txt = Some (JObj kv)"
    and "map_of kv ''type'' \<noteq> Some (JStr ''mark_read'')"
    and "map_of kv ''message'' = None \<or> map_of kv ''message'' = Some (JStr [])"
  shows "receive py now text_data self w =
           (None, self,
            w\<lparr>outbox := outbox w @ [Send (ErrorFrame ''Message content cannot be empty.'')]\<rparr>) \<and>
         (\<forall>txt0. txt0 \<noteq> [] \<and> json_loads py txt0 = None \<longrightarrow>
            receive py now (Some txt0) self w =
              (None, self, w\<lparr>outbox := outbox w @ [Send (ErrorFrame ''Invalid JSON format.'')]\<rparr>) \<and>
            receive py now (Some txt0) self w \<noteq> receive py now text_data self w) \<and>
         (\<forall>txt' kv' u rid g R r now'.
            txt' \<noteq> [] \<and> json_loads py txt' = Some (JObj kv') \<and>
            map_of kv' ''type'' \<noteq> Some (JStr ''mark_read'') \<and>
            truthy (dict_get kv' ''message'') \<and>
            session self = Some (u, rid, g) \<and> py_int py rid = Some R \<and>
            available (store w) \<and> rooms (store w) R = Some r \<longrightarrow>
            (\<exists>m w''. receive py now' (Some txt') self
                 (w\<lparr>outbox := outbox w @
                    [Send (ErrorFrame ''Message content cannot be empty.'')]\<rparr>) =
               (None, self, w'') \<and>
               messages (store w'') = messages (store w) @ [m] \<and>
               content m = content_text py (dict_get kv' ''message'') \<and>
               sender m = Some (pk u) \<and> room m = R \<and>
               outbox w'' = outbox w @
                 [Send (ErrorFrame ''Message content cannot be empty.''),
                  GroupSend g \<lparr>data_id = message_id m, data_sender = u,
                     data_content = dict_get kv' ''message'', data_timestamp = timestamp m,
                     data_room = R\<rparr>]))"
proof (intro conjI allI impI)
  have ne: "nonempty text_data = Some txt" using assms(1,2) by (simp add: nonempty_def)
  have ty: "dict_get_default kv ''type'' (JStr ''message'') \<noteq> JStr ''mark_read''"
    using assms(4) by (rule type_not_mark_read)
  have fa: "\<not> truthy (dict_get kv ''message'')"
    using assms(5) by (auto simp: dict_get_def)
  have e: "receive py now text_data self w =
           (None, self,
            w\<lparr>outbox := outbox w @ [Send (ErrorFrame ''Message content cannot be empty.'')]\<rparr>)"
    using receive_empty_content[OF ne assms(3) ty fa] by (simp add: send_def)
  {
    show "receive py now text_data self w =
           (None, self,
            w\<lparr>outbox := outbox w @ [Send (ErrorFrame ''Message content cannot be empty.'')]\<rparr>)"
      by (rule e)
  next
    fix txt0
    assume h: "txt0 \<noteq> [] \<and> json_loads py txt0 = None"
    then have ne0: "nonempty (Some txt0) = Some txt0" by (simp add: nonempty_def)
    from h have j0: "json_loads py txt0 = None" by simp
    show m: "receive py now (Some txt0) self w =
              (None, self, w\<lparr>outbox := outbox w @ [Send (ErrorFrame ''Invalid JSON format.'')]\<rparr>)"
      using receive_malformed[OF ne0 j0] by (simp add: send_def)
    have "outbox (w\<lparr>outbox := outbox w @ [Send (ErrorFrame ''Invalid JSON format.'')]\<rparr>) \<noteq>
          outbox (w\<lparr>outbox := outbox w @
            [Send (ErrorFrame ''Message content cannot be empty.'')]\<rparr>)"
      by simp
    then have "w\<lparr>outbox := outbox w @ [Send (ErrorFrame ''Invalid JSON format.'')]\<rparr> \<noteq>
          w\<lparr>outbox := outbox w @ [Send (ErrorFrame ''Message content cannot be empty.'')]\<rparr>"
      by metis
    then show "receive py now (Some txt0) self w \<noteq> receive py now text_data self w"
      unfolding m e by simp
  next
    fix txt' kv' u rid g R r now'
    let ?w1 = "w\<lparr>outbox := outbox w @ [Send (ErrorFrame ''Message content cannot be empty.'')]\<rparr>"
    assume h: "txt' \<noteq> [] \<and> json_loads py txt' = Some (JObj kv') \<and>
            map_of kv' ''type'' \<noteq> Some (JStr ''mark_read'') \<and>
            truthy (dict_get kv' ''message'') \<and>
            session self = Some (u, rid, g) \<and> py_int py rid = Some R \<and>
            available (store w) \<and> rooms (store w) R = Some r"
    then have ne': "nonempty (Some txt') = Some txt'" by (simp add: nonempty_def)
    from h have ty': "dict_get_default kv' ''type'' (JStr ''message'') \<noteq> JStr ''mark_read''"
      by (simp add: type_not_mark_read)
    from h have st: "available (store ?w1)" "rooms (store ?w1) R = Some r" by simp_all
    from h have j: "json_loads py txt' = Some (JObj kv')"
      and t: "truthy (dict_get kv' ''message'')"
      and se: "session self = Some (u, rid, g)" and R: "py_int py rid = Some R"
      by simp_all
    from receive_send[OF ne' j ty' t se R st, of now']
    show "\<exists>m w''. receive py now' (Some txt') self ?w1 = (None, self, w'') \<and>
               messages (store w'') = messages (store w) @ [m] \<and>
               content m = content_text py (dict_get kv' ''message'') \<and>
               sender m = Some (pk u) \<and> room m = R \<and>
               outbox w'' = outbox w @
                 [Send (ErrorFrame ''Message content cannot be empty.''),
                  GroupSend g \<lparr>data_id = message_id m, data_sender = u,
                     data_content = dict_get kv' ''message'', data_timestamp = timestamp m,
                     data_room = R\<rparr>]"
      by (simp add: group_send_def)
  }
qed

theorem empty_content_gets_validation_error_witness:
  "receive example_python 30 (Some empty_frame) alice_session world0 =
     (None, alice_session, world0\<lparr>outbox := [empty_error]\<rparr>) \<and>
   receive example_python 30 (Some no_content_frame) alice_session world0 =
     (None, alice_session, world0\<lparr>outbox := [empty_error]\<rparr>) \<and>
   receive example_python 30 (Some bad_frame) alice_session world0 =
     (None, alice_session, world0\<lparr>outbox := [Send (ErrorFrame ''Invalid JSON format.'')]\<rparr>) \<and>
   receive example_python 30 (Some send_frame) alice_session (world0\<lparr>outbox := [empty_error]\<rparr>) =
     (None, alice_session,
      world0\<lparr>store := db0\<lparr>messages := messages db0 @ [ping_msg], next_message_id := 5\<rparr>,
             outbox := [empty_error, GroupSend ''chat_7'' ping_data]\<rparr>)"
proof -
  have o: "outbox world0 = []" by (simp add: world0_def)
  note t = empty_content_gets_validation_error[OF refl example_frames(7) example_frames(3),
      of 30 alice_session world0]
  have a: "receive example_python 30 (Some empty_frame) alice_session world0 =
     (None, alice_session, world0\<lparr>outbox := [empty_error]\<rparr>)"
    using t by (simp add: o empty_error_def)
  have m: "receive example_python 30 (Some bad_frame) alice_session world0 =
     (None, alice_session, world0\<lparr>outbox := [Send (ErrorFrame ''Invalid JSON format.'')]\<rparr>)"
    using t[THEN conjunct2, THEN conjunct1, rule_format, of bad_frame]
    by (simp add: o bad_frame_malformed)
  have b: "receive example_python 30 (Some no_content_frame) alice_session world0 =
     (None, alice_session, world0\<lparr>outbox := [empty_error]\<rparr>)"
    using empty_content_gets_validation_error[OF refl example_frames(8) example_frames(4),
        of 30 alice_session world0]
    by (simp add: o empty_error_def)
  have ne: "nonempty (Some send_frame) = Some send_frame"
    by (simp add: nonempty_def example_frames)
  have ty: "dict_get_default [(''message'', JStr ''hi'')] ''type'' (JStr ''message'')
      \<noteq> JStr ''mark_read''"
    by (simp add: dict_get_default_def)
  have tr: "truthy (dict_get [(''message'', JStr ''hi'')] ''message'')"
    by (simp add: dict_get_def)
  have st: "available (store (world0\<lparr>outbox := [empty_error]\<rparr>))"
    "rooms (store (world0\<lparr>outbox := [empty_error]\<rparr>)) 7 = Some room7"
    using alice_session_attrs by simp_all
  have c: "receive example_python 30 (Some send_frame) alice_session
      (world0\<lparr>outbox := [empty_error]\<rparr>) =
     (None, alice_session,
      world0\<lparr>store := db0\<lparr>messages := messages db0 @ [ping_msg], next_message_id := 5\<rparr>,
             outbox := [empty_error, GroupSend ''chat_7'' ping_data]\<rparr>)"
    using receive_send[OF ne example_frames(2) ty tr alice_session_attrs(1) example_room_id st,
        of 30]
    by (simp add: group_send_def world0_def db0_def ping_msg_def ping_data_def
        dict_get_def content_text_def alice_def)
  from a b m c show ?thesis by simp
qed

section \<open>Creating a room\<close>

lemma prep_pks_instance: "Instance k \<in> set ps \<Longrightarrow> prep_pks ps = Inl TypeError"
proof (induction ps)
  case Nil
  then show ?case by simp
next
  case (Cons x xs)
  then show ?case by (cases x) (auto split: sum.splits)
qed

text \<open>
  The set that \<^verbatim>\<open>create\<close> hands to \<^verbatim>\<open>pk__in\<close> holds the validated instances beside
  the creator's key, so the filter raises for every request that lists an id; a request
  that lists none leaves the creator alone, who is fewer than two.
\<close>

lemma create_result:
  "create now db u vd =
     (if requested vd \<noteq> [] then Inl TypeError
      else if \<not> available db then Inl DatabaseError
      else Inl (ValidationError ''A chat room requires at least two participants.''))"
proof (cases "requested vd")
  case Nil
  then show ?thesis by (simp add: create_def Let_def)
next
  case (Cons x xs)
  then have "Instance (pk x) \<in>
      set (List.insert (Key (pk u)) (remdups (map (\<lambda>u. Instance (pk u)) (requested vd))))"
    by simp
  then have "prep_pks (List.insert (Key (pk u))
      (remdups (map (\<lambda>u. Instance (pk u)) (requested vd)))) = Inl TypeError"
    by (rule prep_pks_instance)
  with Cons show ?thesis by (simp add: create_def Let_def)
qed

lemma create_without_ids:
  "create 100 db0 alice (room_data None) =
     Inl (ValidationError ''A chat room requires at least two participants.'')"
  by (simp add: create_result requested_def room_data_def db0_def)

text \<open>
  Claim C9. Alice asks for a room and lists her own id, so the participants would be
  Alice alone, fewer than two, and the claim has the request rejected with the validation
  error. \<^verbatim>\<open>create\<close> raises \<^verbatim>\<open>TypeError\<close> instead: the set mixes the instance that the
  field made of the id with the key that \<^verbatim>\<open>participants.add(requesting_user.pk)\<close> put
  in, and the \<^verbatim>\<open>pk__in\<close> filter cannot take the instance as a key.
\<close>

theorem create_with_creator_id_raises_type_error:
  "create 100 db0 alice (room_data (Some [alice])) = Inl TypeError"
  by (simp add: create_result requested_def room_data_def)

end
